theory Spec2Isabelle
  imports Main "HOL-Library.Sublist"
begin

section \<open>Python values and string primitives used by main.py\<close>

text \<open>
  A Python \<open>str\<close> is modelled as a HOL \<open>string\<close>. A \<open>char\<close> is read as the code point
  of the same number, so the model covers the strings whose code points are below 256;
  \<open>str.lower\<close> and the white space of \<open>str.strip\<close> are written out for that whole range.
\<close>

definition py_isspace :: "char \<Rightarrow> bool" where
  \<comment> \<open>the code points that \<open>str.strip()\<close> removes: TAB..CR, FS..US, space, NEL, NBSP\<close>
  "py_isspace c =
     (let n = (of_char c :: nat)
      in (9 \<le> n \<and> n \<le> 13) \<or> (28 \<le> n \<and> n \<le> 32) \<or> n = 133 \<or> n = 160)"

definition py_lower_char :: "char \<Rightarrow> char" where
  \<comment> \<open>A..Z and the upper-case letters of Latin-1 (all of 0xC0..0xDE but the sign 0xD7)\<close>
  "py_lower_char c =
     (let n = (of_char c :: nat)
      in if (65 \<le> n \<and> n \<le> 90) \<or> (192 \<le> n \<and> n \<le> 214) \<or> (216 \<le> n \<and> n \<le> 222)
         then char_of (n + 32) else c)"

definition py_lower :: "string \<Rightarrow> string" where
  "py_lower s = map py_lower_char s"

definition py_lstrip :: "string \<Rightarrow> string" where
  "py_lstrip s = dropWhile py_isspace s"

definition py_rstrip :: "string \<Rightarrow> string" where
  "py_rstrip s = rev (dropWhile py_isspace (rev s))"

definition py_strip :: "string \<Rightarrow> string" where
  "py_strip s = py_rstrip (py_lstrip s)"

definition py_startswith :: "string \<Rightarrow> string \<Rightarrow> bool" where
  \<comment> \<open>\<open>s.startswith(p)\<close>\<close>
  "py_startswith s p = (take (length p) s = p)"

definition py_endswith :: "string \<Rightarrow> string \<Rightarrow> bool" where
  \<comment> \<open>\<open>s.endswith(p)\<close>\<close>
  "py_endswith s p = (length p \<le> length s \<and> drop (length s - length p) s = p)"

fun py_find :: "string \<Rightarrow> string \<Rightarrow> nat option" where
  \<comment> \<open>\<open>s.find(sub)\<close>: the index of the leftmost occurrence, \<open>None\<close> for Python's -1\<close>
  "py_find [] sub = (if sub = [] then Some 0 else None)"
| "py_find (c # s) sub =
     (if py_startswith (c # s) sub then Some 0 else map_option Suc (py_find s sub))"

definition py_in :: "string \<Rightarrow> string \<Rightarrow> bool" where
  \<comment> \<open>\<open>sub in s\<close>\<close>
  "py_in sub s = (py_find s sub \<noteq> None)"

fun py_split :: "char \<Rightarrow> string \<Rightarrow> string list" where
  \<comment> \<open>\<open>s.split(sep)\<close> for a one-character separator; the result is never empty\<close>
  "py_split sep [] = [[]]"
| "py_split sep (c # s) =
     (if c = sep then [] # py_split sep s
      else (case py_split sep s of [] \<Rightarrow> [[c]] | l # ls \<Rightarrow> (c # l) # ls))"

definition py_split1 :: "char \<Rightarrow> string \<Rightarrow> string list" where
  \<comment> \<open>\<open>s.split(sep, 1)\<close>: at most one split, at the first separator\<close>
  "py_split1 sep s =
     (if sep \<in> set s
      then [takeWhile (\<lambda>c. c \<noteq> sep) s, tl (dropWhile (\<lambda>c. c \<noteq> sep) s)]
      else [s])"

definition py_index :: "'a list \<Rightarrow> nat \<Rightarrow> 'a option" where
  \<comment> \<open>\<open>xs[i]\<close> for \<open>i \<ge> 0\<close>; \<open>None\<close> stands for IndexError\<close>
  "py_index xs i = (if i < length xs then Some (xs ! i) else None)"

definition py_slice :: "'a list \<Rightarrow> nat \<Rightarrow> nat \<Rightarrow> 'a list" where
  \<comment> \<open>\<open>xs[a:b]\<close> for \<open>0 \<le> a\<close>, \<open>0 \<le> b\<close>\<close>
  "py_slice xs a b = take (b - a) (drop a xs)"

function str_nat :: "nat \<Rightarrow> string" where
  \<comment> \<open>\<open>str(n)\<close> for a non-negative int: its decimal digits\<close>
  "str_nat n =
     (if n < 10 then [char_of (48 + n)]
      else str_nat (n div 10) @ [char_of (48 + n mod 10)])"
  by pat_completeness auto
termination
  by (relation "measure (\<lambda>n. n)") auto

declare str_nat.simps [simp del]

datatype pyval = PyNone | PyStr string | PyInt int

fun py_str :: "pyval \<Rightarrow> string" where
  \<comment> \<open>\<open>str(v)\<close>, as an f-string renders a value\<close>
  "py_str PyNone = ''None''"
| "py_str (PyStr s) = s"
| "py_str (PyInt i) = (if i < 0 then ''-'' @ str_nat (nat (- i)) else str_nat (nat i))"

fun py_truthy :: "pyval \<Rightarrow> bool" where
  "py_truthy PyNone = False"
| "py_truthy (PyStr s) = (s \<noteq> [])"
| "py_truthy (PyInt i) = (i \<noteq> 0)"

fun isinstance_str :: "pyval \<Rightarrow> bool" where
  "isinstance_str (PyStr s) = True"
| "isinstance_str v = False"

section \<open>The effects of a run\<close>

text \<open>
  The function talks to three collaborators (the generative model, BigQuery and the clock)
  and writes to the log. The model threads a \<open>world\<close> through every function: the prompts
  sent to the model so far, the batches handed to \<open>insert_rows_json\<close>, the number of clock
  readings and the log records. The collaborators' answers are parameters.
\<close>

record new_row =
  repo_name :: pyval
  file_path :: pyval
  secret_snippet :: string
  ai_confidence :: string
  ai_reasoning :: string
  scan_timestamp :: string

datatype level = DEBUG | INFO | WARNING | ERROR

record world =
  ai_calls :: "string list"
  bq_inserts :: "new_row list list"
  clock_reads :: nat
  logged :: "(level \<times> string) list"

definition logging_debug :: "string \<Rightarrow> world \<Rightarrow> world" where
  "logging_debug msg w = w\<lparr>logged := logged w @ [(DEBUG, msg)]\<rparr>"

definition logging_info :: "string \<Rightarrow> world \<Rightarrow> world" where
  "logging_info msg w = w\<lparr>logged := logged w @ [(INFO, msg)]\<rparr>"

definition logging_warning :: "string \<Rightarrow> world \<Rightarrow> world" where
  "logging_warning msg w = w\<lparr>logged := logged w @ [(WARNING, msg)]\<rparr>"

definition logging_error :: "string \<Rightarrow> world \<Rightarrow> world" where
  "logging_error msg w = w\<lparr>logged := logged w @ [(ERROR, msg)]\<rparr>"

section \<open>analyze_with_ai\<close>

definition context_window :: nat where
  "context_window = 150"

text \<open>
  Lines 66 to 82, with the window size as a parameter (the source fixes it to
  \<open>context_window\<close>). \<open>re.finditer(re.escape(v), s)\<close> matches \<open>v\<close> literally, so the first
  match starts at \<open>s.find(v)\<close>; the search is total, and the handler of line 80 has
  nothing to catch.
\<close>

definition contextual_snippet_of :: "nat \<Rightarrow> string \<Rightarrow> string \<Rightarrow> string" where
  "contextual_snippet_of window code_snippet potential_secret_value =
     (if code_snippet \<noteq> [] \<and> potential_secret_value \<noteq> [] then
        (case py_find code_snippet potential_secret_value of
           Some match_start \<Rightarrow>
             let match_end = match_start + length potential_secret_value;
                 start = nat (max 0 (int match_start - int window));
                 stop = min (length code_snippet) (match_end + window);
                 snippet = py_slice code_snippet start stop;
                 snippet = (if start > 0 then ''...'' @ snippet else snippet);
                 snippet = (if stop < length code_snippet then snippet @ ''...'' else snippet)
             in snippet
         | None \<Rightarrow> take (window * 2) code_snippet @ ''...'')
      else potential_secret_value)"

definition prompt_part0 :: string where
  "prompt_part0 = concat [
     ''\<newline>'',
     ''    You are a Senior Security Analyst specializing in Data Loss Prevention (DLP) reviewing code snippets for leaked secrets.\<newline>'',
     ''    Analyze the following 'Potential Secret Value' found within the 'Code Snippet Context'.\<newline>'',
     ''    Determine if the value looks like a REAL, ACTIVE credential (API key, token, password) or if it's likely a FALSE POSITIVE (placeholder, example, test data, deactivated key format, identifier, configuration value).\<newline>'',
     ''\<newline>'',
     ''    Consider factors like:\<newline>'',
     ''    - Key patterns (common prefixes like sk_live_, AKIA, etc.)\<newline>'',
     ''    - Entropy/Randomness of the string\<newline>'',
     ''    - Surrounding code (variable names like 'api_key', 'password'; comments mentioning 'test' or 'example')\<newline>'',
     ''    - Common placeholder formats (e.g., 'YOUR_API_KEY_HERE', 'xxxxxxxx')\<newline>'',
     ''\<newline>'',
     ''    Provide your analysis STRICTLY in this format:\<newline>'',
     ''    CONFIDENCE: [High | Medium | Low | None]\<newline>'',
     ''    REASONING: [Your brief explanation justifying the confidence level. Be concise.]\<newline>'',
     ''\<newline>'',
     ''    **Code Snippet Context:**\<newline>'',
     ''    ```\<newline>'',
     ''    ''
   ]"

definition prompt_part1 :: string where
  "prompt_part1 = concat [
     ''\<newline>'',
     ''    ```\<newline>'',
     ''\<newline>'',
     ''    **Potential Secret Value:**\<newline>'',
     ''    ''
   ]"

definition prompt_part2 :: string where
  "prompt_part2 = concat [
     ''\<newline>'',
     ''\<newline>'',
     ''    **Your Analysis:**\<newline>'',
     ''    ''
   ]"

definition prompt_of :: "string \<Rightarrow> string \<Rightarrow> string" where
  \<comment> \<open>the f-string of line 84\<close>
  "prompt_of contextual_snippet potential_secret_value =
     prompt_part0 @ contextual_snippet @ prompt_part1 @ potential_secret_value @ prompt_part2"

text \<open>
  What lines 111 to 117 produce: the text of the response, or an exception raised by
  the call or by reading the response, given by its \<open>str(e)\<close>. The model's answer may
  depend on the prompts it has already received.
\<close>

datatype gen_result = Text string | Raises string

definition analyze_with_ai ::
  "(string list \<Rightarrow> string \<Rightarrow> gen_result) \<Rightarrow> world \<Rightarrow> string \<Rightarrow> string option \<Rightarrow> string \<times> world"
where
  "analyze_with_ai generate_content w code_snippet potential_secret_value =
     (case potential_secret_value of
        None \<Rightarrow>
          (''CONFIDENCE: None\<newline>REASONING: Likely placeholder or example value.'',
           logging_info (''Skipping AI analysis for likely placeholder: '' @ ''None'') w)
      | Some v \<Rightarrow>
          if py_in ''example'' (py_lower v) \<or> py_in ''test'' (py_lower v)
             \<or> py_startswith v ''YOUR_'' \<or> py_endswith v ''_HERE''
          then
            (''CONFIDENCE: None\<newline>REASONING: Likely placeholder or example value.'',
             logging_info (''Skipping AI analysis for likely placeholder: '' @ v) w)
          else
            let contextual_snippet = contextual_snippet_of context_window code_snippet v;
                prompt = prompt_of contextual_snippet v;
                w1 = w\<lparr>ai_calls := ai_calls w @ [prompt]\<rparr>
            in (case generate_content (ai_calls w) prompt of
                  Text analysis_text \<Rightarrow>
                    if \<not> py_in ''CONFIDENCE:'' analysis_text \<or> \<not> py_in ''REASONING:'' analysis_text
                    then
                      (''CONFIDENCE: Low\<newline>REASONING: AI response format error.'',
                       logging_warning (''AI response format invalid: '' @ analysis_text) w1)
                    else (analysis_text, w1)
                | Raises e \<Rightarrow>
                    let w2 = logging_error (''Error communicating with Vertex AI: '' @ e) w1
                    in if py_in ''Quota'' e
                       then (''CONFIDENCE: None\<newline>REASONING: Vertex AI quota exceeded during analysis.'', w2)
                       else (''CONFIDENCE: None\<newline>REASONING: Error during AI analysis communication.'', w2)))"

section \<open>Parsing the verdict (hunt_and_analyze, lines 182 to 195)\<close>

text \<open>
  The body of the \<open>try\<close>: \<open>Inr (confidence, reasoning)\<close> when it completes, and
  \<open>Inl (confidence, e)\<close> when \<open>[1]\<close> raises IndexError, with the confidence assigned so far
  and the exception's text.
\<close>

definition parse_try :: "string \<Rightarrow> (string \<times> string) + (string \<times> string)" where
  "parse_try ai_analysis =
     (let confidence = ''None'';
          reasoning = ''Parsing error'';
          lines = py_split CHR ''\<newline>'' (py_strip ai_analysis)
      in case (if length lines \<ge> 1 \<and> py_startswith (lines ! 0) ''CONFIDENCE:''
               then map_option py_strip (py_index (py_split1 CHR '':'' (lines ! 0)) 1)
               else Some confidence) of
           None \<Rightarrow> Inl (confidence, ''list index out of range'')
         | Some confidence \<Rightarrow>
             if length lines \<ge> 2 \<and> py_startswith (lines ! 1) ''REASONING:''
             then (case py_index (py_split1 CHR '':'' (lines ! 1)) 1 of
                     None \<Rightarrow> Inl (confidence, ''list index out of range'')
                   | Some r \<Rightarrow> Inr (confidence, py_strip r))
             else if length lines = 1 then Inr (confidence, ''AI response missing reasoning.'')
             else Inr (confidence, reasoning))"

definition parse_verdict :: "string \<Rightarrow> string \<times> string" where
  \<comment> \<open>the values of \<open>confidence\<close> and \<open>reasoning\<close> at line 197\<close>
  "parse_verdict ai_analysis =
     (case parse_try ai_analysis of
        Inr (confidence, reasoning) \<Rightarrow> (confidence, reasoning)
      | Inl (confidence, e) \<Rightarrow> (confidence, ''Parsing error: '' @ e))"

section \<open>log_to_bigquery\<close>

definition DATASET_ID :: string where
  "DATASET_ID = ''secret_scanner_results''"

definition TABLE_ID :: string where
  "TABLE_ID = ''confirmed_leaks''"

text \<open>
  What the \<open>try\<close> of lines 136 to 145 meets: the list that \<open>insert_rows_json\<close> returns
  (one index and one rendered error text for each failed record), or an exception, given
  by its \<open>str(e)\<close>.
\<close>

datatype insert_result = InsertErrors "(nat \<times> string) list" | InsertRaises string

definition log_to_bigquery ::
  "(new_row list \<Rightarrow> insert_result) \<Rightarrow> world \<Rightarrow> new_row list \<Rightarrow> world"
where
  "log_to_bigquery insert_rows_json w rows =
     (if rows = [] then
        logging_info ''No new high/medium confidence leaks to insert into BigQuery.'' w
      else
        let w1 = w\<lparr>bq_inserts := bq_inserts w @ [rows]\<rparr>
        in (case insert_rows_json rows of
              InsertErrors errors \<Rightarrow>
                if errors = [] then
                  logging_info (''Successfully inserted '' @ str_nat (length rows)
                    @ '' rows into BigQuery table '' @ DATASET_ID @ ''.'' @ TABLE_ID @ ''.'') w1
                else
                  fold (\<lambda>error_detail. logging_error (''BigQuery insert error: Index ''
                          @ str_nat (fst error_detail) @ '', Errors: '' @ snd error_detail))
                    errors w1
            | InsertRaises e \<Rightarrow>
                logging_error (''Failed to insert rows into BigQuery: '' @ e) w1))"

section \<open>hunt_and_analyze\<close>

definition HUNT_QUERY :: string where
  "HUNT_QUERY = concat [
     ''\<newline>'',
     ''    SELECT\<newline>'',
     ''      f.repo_name,\<newline>'',
     ''      f.path,\<newline>'',
     ''      c.content,\<newline>'',
     ''      -- REGEXP_EXTRACT without r'' @ [CHR 0x27] @ [CHR 0x27] @ '' and using '' @ [CHR 0x5C] @ '' for escapes, including '' @ [CHR 0x27] @ ''\<newline>'',
     ''      REGEXP_EXTRACT(c.content, '(?i)(?:api_key|secret_key|access_token)'' @ [CHR 0x5C] @ [CHR 0x5C] @ ''s*[:=]'' @ [CHR 0x5C] @ [CHR 0x5C] @ ''s*['' @ [CHR 0x22] @ [CHR 0x5C] @ [CHR 0x27] @ '']?([-a-zA-Z0-9_./]{20,})['' @ [CHR 0x22] @ [CHR 0x5C] @ [CHR 0x27] @ '']?') AS potential_secret\<newline>'',
     ''    FROM\<newline>'',
     ''      `bigquery-public-data.github_repos.files` AS f\<newline>'',
     ''    JOIN\<newline>'',
     ''      `bigquery-public-data.github_repos.contents` AS c\<newline>'',
     ''    ON\<newline>'',
     ''      f.id = c.id\<newline>'',
     ''    WHERE\<newline>'',
     ''      -- REGEXP_CONTAINS without r'' @ [CHR 0x27] @ [CHR 0x27] @ '' and using '' @ [CHR 0x5C] @ ''.\<newline>'',
     ''      (REGEXP_CONTAINS(f.path, '' @ [CHR 0x27] @ [CHR 0x5C] @ [CHR 0x5C] @ ''.(py|ya?ml|json|env|conf|cfg|properties|sh)$') OR f.path LIKE '%config%')\<newline>'',
     ''      AND c.size < 100000 -- Avoid huge files\<newline>'',
     ''      -- REGEXP_CONTAINS without r'' @ [CHR 0x27] @ [CHR 0x27] @ '' and using '' @ [CHR 0x5C] @ ''s\<newline>'',
     ''      AND REGEXP_CONTAINS(c.content, '(?i)(api_key|secret|token|password|credential|private_key)'' @ [CHR 0x5C] @ [CHR 0x5C] @ ''s*[:=]')\<newline>'',
     ''      -- REGEXP_CONTAINS without r'' @ [CHR 0x27] @ [CHR 0x27] @ '' - no escapes needed here\<newline>'',
     ''      AND NOT REGEXP_CONTAINS(f.path, '(?i)(test|example|sample|demo|mock|fake)')\<newline>'',
     ''      AND c.content IS NOT NULL -- Ensure content is not null\<newline>'',
     ''      AND LENGTH(c.content) > 0 -- Ensure content is not empty\<newline>'',
     ''    LIMIT 25; -- Limit results for function runtime constraints\<newline>''
   ]"

text \<open>
  A row of the result: each attribute is absent (\<open>None\<close>, so that \<open>getattr\<close> returns its
  default) or holds a value.
\<close>

record row =
  row_potential_secret :: "pyval option"
  row_repo_name :: "pyval option"
  row_path :: "pyval option"
  row_content :: "pyval option"

definition getattr :: "'a option \<Rightarrow> 'a \<Rightarrow> 'a" where
  "getattr attr dflt = (case attr of None \<Rightarrow> dflt | Some v \<Rightarrow> v)"

fun the_str :: "pyval \<Rightarrow> string" where
  \<comment> \<open>the characters of a value that passed \<open>isinstance(v, str)\<close>\<close>
  "the_str (PyStr s) = s"
| "the_str v = []"

text \<open>The local variables of the loop, and the world.\<close>

record scan =
  count :: nat
  processed_count :: nat
  rows_to_insert :: "new_row list"
  env :: world

definition not_valid_str :: "pyval \<Rightarrow> bool" where
  \<comment> \<open>\<open>not v or not isinstance(v, str)\<close>, lines 169 and 174\<close>
  "not_valid_str v = (\<not> py_truthy v \<or> \<not> isinstance_str v)"

definition row_location :: "row \<Rightarrow> string" where
  \<comment> \<open>\<open>{repo_name}/{file_path}\<close> in the log messages\<close>
  "row_location r =
     py_str (getattr (row_repo_name r) (PyStr ''N/A'')) @ ''/''
       @ py_str (getattr (row_path r) (PyStr ''N/A''))"

definition row_analysis ::
  "(string list \<Rightarrow> string \<Rightarrow> gen_result) \<Rightarrow> world \<Rightarrow> nat \<Rightarrow> row \<Rightarrow> string \<times> world"
where
  \<comment> \<open>lines 173 to 180, for a row that passed line 169\<close>
  "row_analysis generate_content w processed r =
     (let potential_secret_value = the_str (getattr (row_potential_secret r) PyNone);
          content_value = getattr (row_content r) PyNone;
          (content_value, w) =
             (if not_valid_str content_value
              then ([], logging_warning (''Row '' @ str_nat processed @ '': Content missing for ''
                          @ row_location r @ ''. Using only secret value for AI context.'') w)
              else (the_str content_value, w));
          w = logging_info (''Row '' @ str_nat processed @ '': Analyzing potential secret in: ''
                 @ row_location r) w;
          (ai_analysis, w) = analyze_with_ai generate_content w content_value (Some potential_secret_value);
          w = logging_debug (''Row '' @ str_nat processed @ '': AI Analysis result:\<newline>''
                 @ ai_analysis) w
      in (ai_analysis, w))"

definition confidence_gate :: "string \<Rightarrow> bool" where
  \<comment> \<open>the condition of line 199\<close>
  "confidence_gate confidence = (py_lower confidence \<in> set [''high'', ''medium''])"

definition loop_body ::
  "(string list \<Rightarrow> string \<Rightarrow> gen_result) \<Rightarrow> (nat \<Rightarrow> string) \<Rightarrow> scan \<Rightarrow> row \<Rightarrow> scan"
where
  \<comment> \<open>lines 164 to 210; \<open>utcnow_isoformat n\<close> is what the clock's reading number \<open>n\<close> formats to\<close>
  "loop_body generate_content utcnow_isoformat st r =
     (let processed = processed_count st + 1;
          st = st\<lparr>processed_count := processed\<rparr>;
          potential_secret_value = getattr (row_potential_secret r) PyNone;
          repo = getattr (row_repo_name r) (PyStr ''N/A'');
          fpath = getattr (row_path r) (PyStr ''N/A'')
      in if not_valid_str potential_secret_value then
           st\<lparr>env := logging_debug (''Row '' @ str_nat processed
                  @ '': No valid potential_secret found for '' @ row_location r @ ''. Skipping.'')
                  (env st)\<rparr>
         else
           let (ai_analysis, w) = row_analysis generate_content (env st) processed r;
               (confidence, reasoning, w) =
                  (case parse_try ai_analysis of
                     Inr (confidence, reasoning) \<Rightarrow> (confidence, reasoning, w)
                   | Inl (confidence, e) \<Rightarrow>
                       (confidence, ''Parsing error: '' @ e,
                        logging_warning (''Error parsing AI response: '' @ e @ ''. Raw: ''
                          @ ai_analysis) w));
               w = logging_info (''Row '' @ str_nat processed @ '': AI Confidence: '' @ confidence
                      @ '' for '' @ row_location r) w
           in if confidence_gate confidence then
                let new_count = count st + 1;
                    row_to_insert = \<lparr>repo_name = repo, file_path = fpath,
                       secret_snippet = take 1024 (the_str potential_secret_value),
                       ai_confidence = confidence,
                       ai_reasoning = take 1024 reasoning,
                       scan_timestamp = utcnow_isoformat (clock_reads w) @ ''Z''\<rparr>;
                    w = w\<lparr>clock_reads := clock_reads w + 1\<rparr>;
                    w = logging_info (''Row '' @ str_nat processed @ '': Added potential leak #''
                          @ str_nat new_count @ '' from '' @ row_location r @ '' for BQ insertion.'') w
                in st\<lparr>count := new_count, rows_to_insert := rows_to_insert st @ [row_to_insert],
                      env := w\<rparr>
              else st\<lparr>env := w\<rparr>)"

fun for_rows ::
  "(string list \<Rightarrow> string \<Rightarrow> gen_result) \<Rightarrow> (nat \<Rightarrow> string) \<Rightarrow> scan \<Rightarrow> row list \<Rightarrow> scan"
where
  "for_rows generate_content utcnow_isoformat st [] = st"
| "for_rows generate_content utcnow_isoformat st (r # results) =
     for_rows generate_content utcnow_isoformat
       (loop_body generate_content utcnow_isoformat st r) results"

text \<open>The exceptions that the handlers of lines 218 to 228 tell apart, with their \<open>str(e)\<close>.\<close>

datatype exn = Forbidden string | BadRequest string | OtherException string

fun except_clauses :: "exn \<Rightarrow> world \<Rightarrow> (string \<times> nat) \<times> world" where
  "except_clauses (Forbidden e) w =
     ((''Permission Error: '' @ e, 500),
      logging_error (''Permission error during BigQuery job execution: '' @ e) w)"
| "except_clauses (BadRequest e) w =
     ((''Bad Query Error: '' @ e, 500),
      logging_error (''Failing Query:\<newline>---\<newline>'' @ HUNT_QUERY @ ''\<newline>---'')
        (logging_error (''Bad Request/Query Syntax error during BigQuery job execution: '' @ e) w))"
| "except_clauses (OtherException e) w =
     ((''Error during execution: '' @ e, 500),
      logging_error (''Critical error during function execution: '' @ e) w)"

text \<open>
  The query stage (lines 157 and 158) raises, or gives a result with its \<open>total_rows\<close>,
  the rows the iteration yields and, possibly, an exception that the iterator raises
  after them.
\<close>

datatype query_result = QueryRaises exn | QueryRows pyval "row list" "exn option"

definition hunt_and_analyze ::
  "(string list \<Rightarrow> string \<Rightarrow> gen_result) \<Rightarrow> (new_row list \<Rightarrow> insert_result) \<Rightarrow> (nat \<Rightarrow> string)
     \<Rightarrow> query_result \<Rightarrow> world \<Rightarrow> (string \<times> nat) \<times> world"
where
  "hunt_and_analyze generate_content insert_rows_json utcnow_isoformat query w =
     (let w = logging_info ''Cloud Function execution started.'' w;
          w = logging_info ''Starting BigQuery hunt query...'' w
      in case query of
           QueryRaises e \<Rightarrow> except_clauses e w
         | QueryRows total_rows results iteration_error \<Rightarrow>
             let w = logging_info (''BigQuery hunt query complete. Found '' @ py_str total_rows
                        @ '' potential candidates.'') w;
                 st = for_rows generate_content utcnow_isoformat
                        \<lparr>count = 0, processed_count = 0, rows_to_insert = [], env = w\<rparr> results
             in (case iteration_error of
                   Some e \<Rightarrow> except_clauses e (env st)
                 | None \<Rightarrow>
                     let w = log_to_bigquery insert_rows_json (env st) (rows_to_insert st);
                         final_message = ''Scan complete. Processed '' @ str_nat (processed_count st)
                            @ '' candidates. Found and logged '' @ str_nat (length (rows_to_insert st))
                            @ '' high/medium-confidence leaks.''
                     in ((final_message, 200), logging_info final_message w)))"

text \<open>
  The dict of lines 201 to 208, for a row, the analysis text it got and the world at
  line 207: what \<open>loop_body\<close> appends when the gate accepts.
\<close>

definition accepted_row :: "(nat \<Rightarrow> string) \<Rightarrow> row \<Rightarrow> string \<Rightarrow> world \<Rightarrow> new_row" where
  "accepted_row clk r ai w =
     \<lparr>repo_name = getattr (row_repo_name r) (PyStr ''N/A''),
      file_path = getattr (row_path r) (PyStr ''N/A''),
      secret_snippet = take 1024 (the_str (getattr (row_potential_secret r) PyNone)),
      ai_confidence = fst (parse_verdict ai),
      ai_reasoning = take 1024 (snd (parse_verdict ai)),
      scan_timestamp = clk (clock_reads w) @ ''Z''\<rparr>"

section \<open>Equality of strings up to the case of their letters\<close>

text \<open>
  The reading of ``compares case-insensitively equal to a lower-case word'' that the gate
  is checked against: the two strings have the same length, and each character is the
  word's letter at that place or its capital.
\<close>

definition capital_of :: "char \<Rightarrow> char" where
  "capital_of l = char_of (of_char l - 32 :: nat)"

definition equals_ignoring_case :: "string \<Rightarrow> string \<Rightarrow> bool" where
  "equals_ignoring_case s word = list_all2 (\<lambda>c l. c = l \<or> c = capital_of l) s word"

section \<open>The string primitives against the library's notions\<close>

lemma py_startswith_prefix: "py_startswith s p \<longleftrightarrow> prefix p s"
  unfolding py_startswith_def
  by (metis append_eq_conv_conj prefix_def take_is_prefix)

lemma py_endswith_suffix: "py_endswith s p \<longleftrightarrow> suffix p s"
proof
  assume "py_endswith s p"
  then have "drop (length s - length p) s = p" by (simp add: py_endswith_def)
  then show "suffix p s" by (metis suffix_drop)
next
  assume "suffix p s"
  then obtain q where "s = q @ p" by (auto simp: suffix_def)
  then show "py_endswith s p" by (simp add: py_endswith_def)
qed

lemma py_find_None_iff: "py_find s sub = None \<longleftrightarrow> \<not> sublist sub s"
proof (induction s)
  case Nil
  then show ?case by simp
next
  case (Cons c s)
  show ?case
  proof (cases sub)
    case Nil
    then show ?thesis by (simp add: py_startswith_def)
  next
    case (Cons x xs)
    then show ?thesis using Cons.IH
      by (simp add: py_startswith_prefix sublist_Cons_right)
  qed
qed

lemma py_in_sublist: "py_in sub s \<longleftrightarrow> sublist sub s"
  by (simp add: py_in_def py_find_None_iff)

lemma py_find_Some_take:
  "py_find s sub = Some i \<Longrightarrow> i + length sub \<le> length s \<and> take (length sub) (drop i s) = sub"
proof (induction s arbitrary: i)
  case Nil
  then show ?case by (simp split: if_splits)
next
  case (Cons c s)
  show ?case
  proof (cases "py_startswith (c # s) sub")
    case True
    with Cons.prems have "i = 0" by simp
    moreover from True have "prefix sub (c # s)" by (simp add: py_startswith_prefix)
    then have "length sub \<le> length (c # s)" by (rule prefix_length_le)
    ultimately show ?thesis using True by (simp add: py_startswith_def)
  next
    case False
    with Cons.prems obtain j where j: "py_find s sub = Some j" "i = Suc j" by auto
    from Cons.IH[OF j(1)] j(2) show ?thesis by simp
  qed
qed

lemma py_find_prefix: "prefix sub s \<Longrightarrow> py_find s sub = Some 0"
  by (cases s) (auto simp: py_startswith_prefix)

section \<open>The placeholder filter\<close>

lemma py_lower_sublist:
  "sublist u s \<Longrightarrow> py_lower u = p \<Longrightarrow> py_in p (py_lower s)"
  unfolding py_in_sublist py_lower_def by (auto intro: map_mono_sublist)

text \<open>
  Claim C2. When the secret value is absent, or has a substring that lower-cases to
  \<open>example\<close> or to \<open>test\<close>, or starts with \<open>YOUR_\<close>, or ends with \<open>_HERE\<close>, then
  \<open>analyze_with_ai\<close> returns the two-line placeholder text and sends no prompt to the
  model: the list of calls is the one it started with.
\<close>

theorem placeholder_skips_classifier:
  assumes "v = None \<or> (\<exists>s. v = Some s \<and>
             ((\<exists>u. sublist u s \<and> py_lower u = ''example'')
              \<or> (\<exists>u. sublist u s \<and> py_lower u = ''test'')
              \<or> prefix ''YOUR_'' s \<or> suffix ''_HERE'' s))"
  shows "fst (analyze_with_ai generate_content w code_snippet v)
           = ''CONFIDENCE: None\<newline>REASONING: Likely placeholder or example value.''
         \<and> ai_calls (snd (analyze_with_ai generate_content w code_snippet v)) = ai_calls w"
proof (cases v)
  case None
  then show ?thesis by (simp add: analyze_with_ai_def logging_info_def)
next
  case (Some s)
  with assms have "py_in ''example'' (py_lower s) \<or> py_in ''test'' (py_lower s)
      \<or> py_startswith s ''YOUR_'' \<or> py_endswith s ''_HERE''"
    using py_lower_sublist by (auto simp: py_startswith_prefix py_endswith_suffix)
  with Some show ?thesis by (simp add: analyze_with_ai_def logging_info_def)
qed

theorem placeholder_skips_classifier_witness:
  "sublist ''TeSt'' ''my_TeSt_key_0123456789'' \<and> py_lower ''TeSt'' = ''test''
   \<and> fst (analyze_with_ai (\<lambda>h p. Text ''CONFIDENCE: High\<newline>REASONING: real'')
          \<lparr>ai_calls = [], bq_inserts = [], clock_reads = 0, logged = []\<rparr>
          ''api_key = my_TeSt_key_0123456789'' (Some ''my_TeSt_key_0123456789''))
     = ''CONFIDENCE: None\<newline>REASONING: Likely placeholder or example value.''
   \<and> ai_calls (snd (analyze_with_ai (\<lambda>h p. Text ''CONFIDENCE: High\<newline>REASONING: real'')
          \<lparr>ai_calls = [], bq_inserts = [], clock_reads = 0, logged = []\<rparr>
          ''api_key = my_TeSt_key_0123456789'' (Some ''my_TeSt_key_0123456789''))) = []"
proof -
  have s: "sublist ''TeSt'' ''my_TeSt_key_0123456789''"
    by code_simp
  have l: "py_lower ''TeSt'' = ''test''"
    by code_simp
  show ?thesis
    using placeholder_skips_classifier [of "Some ''my_TeSt_key_0123456789''"
        "(\<lambda>h p. Text ''CONFIDENCE: High\<newline>REASONING: real'')"
        "\<lparr>ai_calls = [], bq_inserts = [], clock_reads = 0, logged = []\<rparr>"
        "''api_key = my_TeSt_key_0123456789''"] s l
    by auto
qed

section \<open>Stripping and splitting\<close>

lemma py_rstrip_append:
  "py_rstrip (b @ z) = (if \<forall>c\<in>set z. py_isspace c then py_rstrip b else b @ py_rstrip z)"
  by (simp add: py_rstrip_def dropWhile_append)

lemma py_rstrip_all_space: "\<forall>c\<in>set z. py_isspace c \<Longrightarrow> py_rstrip z = []"
  by (simp add: py_rstrip_def)

lemma py_lstrip_all_space: "\<forall>c\<in>set z. py_isspace c \<Longrightarrow> py_lstrip z = []"
  by (simp add: py_lstrip_def)

lemma py_rstrip_Cons_nonspace:
  "\<not> py_isspace x \<Longrightarrow> py_rstrip (x # rest) = x # py_rstrip rest"
  using py_rstrip_append [of "[x]" rest]
  by (auto simp: py_rstrip_all_space) (simp add: py_rstrip_def)

lemma py_lstrip_append_nonspace:
  "\<forall>c\<in>set ws. py_isspace c \<Longrightarrow> \<not> py_isspace x \<Longrightarrow> py_lstrip (ws @ x # r) = x # r"
  by (simp add: py_lstrip_def dropWhile_append)

lemma py_lstrip_rstrip_commute: "py_lstrip (py_rstrip z) = py_rstrip (py_lstrip z)"
proof (cases "\<forall>c\<in>set z. py_isspace c")
  case True
  then have e: "py_rstrip z = []" "py_lstrip z = []"
    by (simp_all add: py_rstrip_all_space py_lstrip_all_space)
  have "py_lstrip [] = py_rstrip []" by (simp add: py_lstrip_def py_rstrip_def)
  then show ?thesis by (simp only: e)
next
  case False
  then have "\<exists>c\<in>set z. \<not> py_isspace c" by simp
  then obtain ws x rest where z: "z = ws @ x # rest" and x: "\<not> py_isspace x"
    and ws: "\<forall>c\<in>set ws. \<not> \<not> py_isspace c"
    by (auto simp: split_list_first_prop_iff)
  from ws have ws': "\<forall>c\<in>set ws. py_isspace c" by simp
  have "py_rstrip z = ws @ py_rstrip (x # rest)"
    using x by (auto simp: z py_rstrip_append)
  also have "\<dots> = ws @ x # py_rstrip rest" using x by (simp add: py_rstrip_Cons_nonspace)
  finally have "py_lstrip (py_rstrip z) = x # py_rstrip rest"
    using ws' x by (simp add: py_lstrip_append_nonspace)
  moreover have "py_lstrip z = x # rest" using ws' x by (simp add: z py_lstrip_append_nonspace)
  ultimately show ?thesis using x by (simp add: py_rstrip_Cons_nonspace)
qed

lemma py_rstrip_idem: "py_rstrip (py_rstrip z) = py_rstrip z"
proof (induction z rule: rev_induct)
  case Nil
  then show ?case by (simp add: py_rstrip_def)
next
  case (snoc c z)
  then show ?case by (cases "py_isspace c") (simp_all add: py_rstrip_def)
qed

lemma py_strip_rstrip: "py_strip (py_rstrip z) = py_strip z"
  by (simp add: py_strip_def py_lstrip_rstrip_commute py_rstrip_idem)

lemma py_strip_space_Cons: "py_isspace c \<Longrightarrow> py_strip (c # z) = py_strip z"
  by (simp add: py_strip_def py_lstrip_def)

lemma set_py_rstrip: "set (py_rstrip z) \<subseteq> set z"
  unfolding py_rstrip_def using set_dropWhileD by fastforce

lemma py_split_no_sep: "sep \<notin> set s \<Longrightarrow> py_split sep s = [s]"
  by (induction s) auto

lemma py_split_append: "sep \<notin> set a \<Longrightarrow> py_split sep (a @ sep # b) = a # py_split sep b"
  by (induction a) auto

lemma py_index_split1:
  "sep \<in> set l \<Longrightarrow> py_index (py_split1 sep l) (Suc 0) = Some (tl (dropWhile (\<lambda>c. c \<noteq> sep) l))"
  by (simp add: py_index_def py_split1_def)

lemma startswith_has_colon:
  "py_startswith l ''CONFIDENCE:'' \<Longrightarrow> CHR '':'' \<in> set l"
  "py_startswith l ''REASONING:'' \<Longrightarrow> CHR '':'' \<in> set l"
  using set_mono_prefix [of "''CONFIDENCE:''" l] set_mono_prefix [of "''REASONING:''" l]
  by (auto simp: py_startswith_prefix)

section \<open>The verdict parser\<close>

text \<open>
  The \<open>try\<close> of lines 184 to 191 always completes on a string: \<open>[1]\<close> is only reached
  behind a \<open>startswith\<close> test that puts a colon in the line, so the handler of line 193 is
  never entered.
\<close>

lemma parse_try_completes: "parse_try t = Inr (parse_verdict t)"
  unfolding parse_verdict_def parse_try_def Let_def
  by (auto simp: py_index_split1 startswith_has_colon split: option.splits)

text \<open>
  Claim C9. For every text whose stripped form has no line break (a single line), the
  parser sets the reasoning to \<open>AI response missing reasoning.\<close>, whether the line starts
  with \<open>CONFIDENCE:\<close> or not; and when it does not, the confidence keeps its default
  \<open>None\<close>.
\<close>

theorem single_line_missing_reasoning:
  assumes "CHR ''\<newline>'' \<notin> set (py_strip t)"
  shows "snd (parse_verdict t) = ''AI response missing reasoning.''
         \<and> (\<not> prefix ''CONFIDENCE:'' (py_strip t) \<longrightarrow> fst (parse_verdict t) = ''None'')"
  using assms
  unfolding parse_verdict_def parse_try_def Let_def
  by (auto simp: py_split_no_sep py_index_split1 startswith_has_colon py_startswith_prefix
      split: option.splits)

theorem single_line_missing_reasoning_witness:
  "CHR ''\<newline>'' \<notin> set (py_strip ''  I cannot tell.  '')
   \<and> \<not> prefix ''CONFIDENCE:'' (py_strip ''  I cannot tell.  '')
   \<and> snd (parse_verdict ''  I cannot tell.  '') = ''AI response missing reasoning.''
   \<and> fst (parse_verdict ''  I cannot tell.  '') = ''None''"
proof -
  have s: "py_strip ''  I cannot tell.  '' = ''I cannot tell.''"
    by code_simp
  have n: "CHR ''\<newline>'' \<notin> set (py_strip ''  I cannot tell.  '')"
    unfolding s by simp
  have p: "\<not> prefix ''CONFIDENCE:'' (py_strip ''  I cannot tell.  '')"
    unfolding s by simp
  from single_line_missing_reasoning [OF n] n p show ?thesis
    by blast
qed

section \<open>The failures of the classification call\<close>

lemma parse_quota_text:
  "parse_verdict ''CONFIDENCE: None\<newline>REASONING: Vertex AI quota exceeded during analysis.''
     = (''None'', ''Vertex AI quota exceeded during analysis.'')"
  by code_simp

lemma parse_communication_text:
  "parse_verdict ''CONFIDENCE: None\<newline>REASONING: Error during AI analysis communication.''
     = (''None'', ''Error during AI analysis communication.'')"
  by code_simp

text \<open>
  Claim C6. When the value is no placeholder, so that the model is called, and the call
  raises an exception with text \<open>e\<close>, \<open>analyze_with_ai\<close> returns a text (it has no
  error result): the quota text when \<open>Quota\<close> occurs in \<open>e\<close>, the communication-error
  text otherwise. Both have the first line \<open>CONFIDENCE: None\<close> and are parsed to the
  confidence \<open>None\<close> with the matching reasoning.
\<close>

theorem classifier_failure_degrades:
  assumes "\<not> sublist ''example'' (py_lower v)" "\<not> sublist ''test'' (py_lower v)"
      "\<not> prefix ''YOUR_'' v" "\<not> suffix ''_HERE'' v"
    and "generate_content (ai_calls w)
           (prompt_of (contextual_snippet_of context_window code_snippet v) v) = Raises e"
  shows "fst (analyze_with_ai generate_content w code_snippet (Some v))
           = (if sublist ''Quota'' e
              then ''CONFIDENCE: None\<newline>REASONING: Vertex AI quota exceeded during analysis.''
              else ''CONFIDENCE: None\<newline>REASONING: Error during AI analysis communication.'')
         \<and> parse_verdict (fst (analyze_with_ai generate_content w code_snippet (Some v)))
           = (''None'', if sublist ''Quota'' e
                        then ''Vertex AI quota exceeded during analysis.''
                        else ''Error during AI analysis communication.'')"
proof -
  have r: "fst (analyze_with_ai generate_content w code_snippet (Some v))
           = (if sublist ''Quota'' e
              then ''CONFIDENCE: None\<newline>REASONING: Vertex AI quota exceeded during analysis.''
              else ''CONFIDENCE: None\<newline>REASONING: Error during AI analysis communication.'')"
    using assms
    by (simp add: analyze_with_ai_def Let_def py_in_sublist py_startswith_prefix py_endswith_suffix)
  show ?thesis
    unfolding r by (simp add: parse_quota_text parse_communication_text)
qed

theorem classifier_failure_degrades_witness:
  "fst (analyze_with_ai (\<lambda>h p. Raises ''429 Quota exceeded for aiplatform.googleapis.com'')
          \<lparr>ai_calls = [], bq_inserts = [], clock_reads = 0, logged = []\<rparr>
          ''password: AbCdEf1234567890XyZ'' (Some ''AbCdEf1234567890XyZ''))
     = ''CONFIDENCE: None\<newline>REASONING: Vertex AI quota exceeded during analysis.''
   \<and> fst (analyze_with_ai (\<lambda>h p. Raises ''503 Service Unavailable'')
          \<lparr>ai_calls = [], bq_inserts = [], clock_reads = 0, logged = []\<rparr>
          ''password: AbCdEf1234567890XyZ'' (Some ''AbCdEf1234567890XyZ''))
     = ''CONFIDENCE: None\<newline>REASONING: Error during AI analysis communication.''"
proof -
  have a: "\<not> sublist ''example'' (py_lower ''AbCdEf1234567890XyZ'')"
    and b: "\<not> sublist ''test'' (py_lower ''AbCdEf1234567890XyZ'')"
    and c: "\<not> prefix ''YOUR_'' ''AbCdEf1234567890XyZ''"
    and d: "\<not> suffix ''_HERE'' ''AbCdEf1234567890XyZ''"
    by code_simp+
  have q: "sublist ''Quota'' ''429 Quota exceeded for aiplatform.googleapis.com''"
    and u: "\<not> sublist ''Quota'' ''503 Service Unavailable''"
    by code_simp+
  have "fst (analyze_with_ai (\<lambda>h p. Raises ''429 Quota exceeded for aiplatform.googleapis.com'')
          \<lparr>ai_calls = [], bq_inserts = [], clock_reads = 0, logged = []\<rparr>
          ''password: AbCdEf1234567890XyZ'' (Some ''AbCdEf1234567890XyZ''))
     = ''CONFIDENCE: None\<newline>REASONING: Vertex AI quota exceeded during analysis.''"
    using classifier_failure_degrades [OF a b c d,
        of "\<lambda>h p. Raises ''429 Quota exceeded for aiplatform.googleapis.com''" _ _
           "''429 Quota exceeded for aiplatform.googleapis.com''"] q
    by simp
  moreover have "fst (analyze_with_ai (\<lambda>h p. Raises ''503 Service Unavailable'')
          \<lparr>ai_calls = [], bq_inserts = [], clock_reads = 0, logged = []\<rparr>
          ''password: AbCdEf1234567890XyZ'' (Some ''AbCdEf1234567890XyZ''))
     = ''CONFIDENCE: None\<newline>REASONING: Error during AI analysis communication.''"
    using classifier_failure_degrades [OF a b c d,
        of "\<lambda>h p. Raises ''503 Service Unavailable''" _ _ "''503 Service Unavailable''"] u
    by simp
  ultimately show ?thesis by blast
qed

section \<open>The context window\<close>

text \<open>
  Claim C3, as the spec words it, fails: with a window of 2 the text is cut on both sides
  of the match, and line 76 and line 77 mark each cut with an ellipsis.
\<close>

theorem window_example_counterexample:
  "contextual_snippet_of 2 (''AAAA'' @ ''SECRET123'' @ ''BBBB'') ''SECRET123'' \<noteq> ''AASECRET123BB''"
  by code_simp

lemma window_example:
  "contextual_snippet_of 2 (''AAAA'' @ ''SECRET123'' @ ''BBBB'') ''SECRET123'' = ''...AASECRET123BB...''"
  by code_simp

lemma window_example_source_size:
  "contextual_snippet_of context_window (''AAAA'' @ ''SECRET123'' @ ''BBBB'') ''SECRET123''
     = ''AAAASECRET123BBBB''"
  by code_simp

lemma snippet_match_at_start:
  assumes "secret \<noteq> []" "prefix secret content"
  shows "contextual_snippet_of window content secret
           = take (length secret + window) content
             @ (if length secret + window < length content then ''...'' else [])"
proof -
  from assms have ne: "content \<noteq> []" by auto
  from assms(2) have f: "py_find content secret = Some 0" by (rule py_find_prefix)
  show ?thesis using ne assms(1) f
    by (simp add: contextual_snippet_of_def py_slice_def Let_def min_def)
qed

lemma snippet_match_at_end:
  assumes "secret \<noteq> []" "py_find content secret = Some i" "i + length secret = length content"
  shows "contextual_snippet_of window content secret
           = (if window < i then ''...'' else []) @ drop (i - window) content"
proof -
  from assms have ne: "content \<noteq> []" by auto
  have n: "nat (max 0 (int i - int window)) = i - window" by simp
  show ?thesis using ne assms
    by (simp add: contextual_snippet_of_def py_slice_def Let_def n)
qed

text \<open>
  Claim C3, amended. For the content \<open>AAAA\<close> + \<open>SECRET123\<close> + \<open>BBBB\<close> and a window of 2 the
  result is \<open>...AASECRET123BB...\<close>, with an ellipsis on each side. When the secret is a
  prefix of the content, the result starts with the content's first characters, with no
  ellipsis before them; when the first occurrence of the secret ends the content, the
  result ends with the content's last characters, with no ellipsis after them.
\<close>

theorem window_ellipses:
  "contextual_snippet_of 2 (''AAAA'' @ ''SECRET123'' @ ''BBBB'') ''SECRET123''
     = ''...AASECRET123BB...''
   \<and> (secret \<noteq> [] \<and> prefix secret content \<longrightarrow>
        contextual_snippet_of window content secret
          = take (length secret + window) content
            @ (if length secret + window < length content then ''...'' else []))
   \<and> (secret \<noteq> [] \<and> py_find content secret = Some i \<and> i + length secret = length content \<longrightarrow>
        contextual_snippet_of window content secret
          = (if window < i then ''...'' else []) @ drop (i - window) content)"
  using window_example snippet_match_at_start snippet_match_at_end by blast

theorem window_ellipses_witness:
  "contextual_snippet_of 2 ''SECRET123BBBB'' ''SECRET123'' = ''SECRET123BB...''
   \<and> contextual_snippet_of 2 ''AAAASECRET123'' ''SECRET123'' = ''...AASECRET123''"
proof -
  have p: "prefix ''SECRET123'' ''SECRET123BBBB''" by code_simp
  have f: "py_find ''AAAASECRET123'' ''SECRET123'' = Some 4" by code_simp
  have "contextual_snippet_of 2 ''SECRET123BBBB'' ''SECRET123'' = ''SECRET123BB...''"
    using window_ellipses [of "''SECRET123''" "''SECRET123BBBB''" 2] p by simp
  moreover have "contextual_snippet_of 2 ''AAAASECRET123'' ''SECRET123'' = ''...AASECRET123''"
    using window_ellipses [of "''SECRET123''" "''AAAASECRET123''" 2 4] f by simp
  ultimately show ?thesis by blast
qed

section \<open>The failures of the query stage\<close>

text \<open>
  Claim C7. When the query stage raises Forbidden, the entry point returns the body
  \<open>Permission Error: \<close> followed by the exception's text, with status 500; no prompt has
  been sent to the model and no batch handed to BigQuery. When it raises BadRequest, the
  body starts with \<open>Bad Query Error: \<close>, which no permission body equals, the status is
  500, the log holds an error record with the text of the failing query, and again no
  candidate is analysed and nothing is inserted.
\<close>

theorem query_error_aborts:
  "fst (hunt_and_analyze generate_content insert_rows_json utcnow_isoformat
          (QueryRaises (Forbidden e)) w) = (''Permission Error: '' @ e, 500)
   \<and> ai_calls (snd (hunt_and_analyze generate_content insert_rows_json utcnow_isoformat
          (QueryRaises (Forbidden e)) w)) = ai_calls w
   \<and> bq_inserts (snd (hunt_and_analyze generate_content insert_rows_json utcnow_isoformat
          (QueryRaises (Forbidden e)) w)) = bq_inserts w
   \<and> fst (hunt_and_analyze generate_content insert_rows_json utcnow_isoformat
          (QueryRaises (BadRequest e')) w) = (''Bad Query Error: '' @ e', 500)
   \<and> ''Bad Query Error: '' @ e' \<noteq> ''Permission Error: '' @ e
   \<and> (ERROR, ''Failing Query:\<newline>---\<newline>'' @ HUNT_QUERY @ ''\<newline>---'')
        \<in> set (logged (snd (hunt_and_analyze generate_content insert_rows_json utcnow_isoformat
          (QueryRaises (BadRequest e')) w)))
   \<and> ai_calls (snd (hunt_and_analyze generate_content insert_rows_json utcnow_isoformat
          (QueryRaises (BadRequest e')) w)) = ai_calls w
   \<and> bq_inserts (snd (hunt_and_analyze generate_content insert_rows_json utcnow_isoformat
          (QueryRaises (BadRequest e')) w)) = bq_inserts w"
  by (simp add: hunt_and_analyze_def logging_info_def logging_error_def)

theorem query_error_aborts_witness:
  "fst (hunt_and_analyze (\<lambda>h p. Text ''CONFIDENCE: High\<newline>REASONING: real'')
          (\<lambda>rows. InsertErrors []) (\<lambda>n. ''2024-05-01T10:00:00.000000'')
          (QueryRaises (Forbidden ''403 Access Denied: Table github_repos.files''))
          \<lparr>ai_calls = [], bq_inserts = [], clock_reads = 0, logged = []\<rparr>)
     = (''Permission Error: 403 Access Denied: Table github_repos.files'', 500)
   \<and> bq_inserts (snd (hunt_and_analyze (\<lambda>h p. Text ''CONFIDENCE: High\<newline>REASONING: real'')
          (\<lambda>rows. InsertErrors []) (\<lambda>n. ''2024-05-01T10:00:00.000000'')
          (QueryRaises (Forbidden ''403 Access Denied: Table github_repos.files''))
          \<lparr>ai_calls = [], bq_inserts = [], clock_reads = 0, logged = []\<rparr>)) = []"
  using query_error_aborts [of "\<lambda>h p. Text ''CONFIDENCE: High\<newline>REASONING: real''"
      "\<lambda>rows. InsertErrors []" "\<lambda>n. ''2024-05-01T10:00:00.000000''"
      "''403 Access Denied: Table github_repos.files''"
      "\<lparr>ai_calls = [], bq_inserts = [], clock_reads = 0, logged = []\<rparr>"]
  by simp

section \<open>The format-error verdict\<close>

text \<open>
  Claim C1, as the spec words it, fails. The text below has both markers, so line 119
  lets it through, but its first line does not start with \<open>CONFIDENCE:\<close>: the parser
  keeps the confidence \<open>None\<close> and reads the reasoning of the second line. And the parser
  alone, on the empty string, gives \<open>None\<close> with the missing-reasoning message.
\<close>

theorem format_error_counterexample:
  "\<not> py_startswith (py_split CHR ''\<newline>'' (py_strip ''Note: CONFIDENCE: High\<newline>REASONING: ok'') ! 0) ''CONFIDENCE:''
   \<and> fst (analyze_with_ai (\<lambda>h p. Text ''Note: CONFIDENCE: High\<newline>REASONING: ok'')
          \<lparr>ai_calls = [], bq_inserts = [], clock_reads = 0, logged = []\<rparr>
          ''password: AbCdEf1234567890XyZ'' (Some ''AbCdEf1234567890XyZ''))
       = ''Note: CONFIDENCE: High\<newline>REASONING: ok''
   \<and> parse_verdict ''Note: CONFIDENCE: High\<newline>REASONING: ok'' = (''None'', ''ok'')
   \<and> parse_verdict [] = (''None'', ''AI response missing reasoning.'')"
  by code_simp

lemma parse_format_error_text:
  "parse_verdict ''CONFIDENCE: Low\<newline>REASONING: AI response format error.''
     = (''Low'', ''AI response format error.'')"
  by code_simp

lemma first_line_without_prefix:
  "\<not> prefix ''CONFIDENCE:'' (py_split CHR ''\<newline>'' (py_strip t) ! 0) \<Longrightarrow> fst (parse_verdict t) = ''None''"
  unfolding parse_verdict_def parse_try_def Let_def
  by (auto simp: py_index_split1 startswith_has_colon py_startswith_prefix split: option.splits)

text \<open>
  Claim C1, amended. When the model is called and its answer \<open>t\<close> lacks the marker
  \<open>CONFIDENCE:\<close> or the marker \<open>REASONING:\<close> (the empty answer lacks both), the verdict
  parsed from what \<open>analyze_with_ai\<close> returns is \<open>Low\<close> with \<open>AI response format error.\<close>.
  A text \<open>t'\<close> whose first line does not start with \<open>CONFIDENCE:\<close> is parsed with the
  confidence \<open>None\<close>, and parsing a string never raises.
\<close>

theorem missing_marker_format_error:
  assumes "\<not> sublist ''example'' (py_lower v)" "\<not> sublist ''test'' (py_lower v)"
      "\<not> prefix ''YOUR_'' v" "\<not> suffix ''_HERE'' v"
    and "generate_content (ai_calls w)
           (prompt_of (contextual_snippet_of context_window code_snippet v) v) = Text t"
    and "\<not> sublist ''CONFIDENCE:'' t \<or> \<not> sublist ''REASONING:'' t"
  shows "parse_verdict (fst (analyze_with_ai generate_content w code_snippet (Some v)))
           = (''Low'', ''AI response format error.'')
         \<and> (\<not> prefix ''CONFIDENCE:'' (py_split CHR ''\<newline>'' (py_strip t') ! 0)
              \<longrightarrow> fst (parse_verdict t') = ''None'')
         \<and> parse_try t' = Inr (parse_verdict t')"
proof -
  have "fst (analyze_with_ai generate_content w code_snippet (Some v))
          = ''CONFIDENCE: Low\<newline>REASONING: AI response format error.''"
    using assms
    by (auto simp add: analyze_with_ai_def Let_def py_in_sublist py_startswith_prefix py_endswith_suffix)
  then have "parse_verdict (fst (analyze_with_ai generate_content w code_snippet (Some v)))
           = (''Low'', ''AI response format error.'')"
    by (simp only: parse_format_error_text)
  with first_line_without_prefix [of t'] parse_try_completes [of t'] show ?thesis
    by blast
qed

theorem missing_marker_format_error_witness:
  "parse_verdict (fst (analyze_with_ai (\<lambda>h p. Text [])
          \<lparr>ai_calls = [], bq_inserts = [], clock_reads = 0, logged = []\<rparr>
          ''password: AbCdEf1234567890XyZ'' (Some ''AbCdEf1234567890XyZ'')))
     = (''Low'', ''AI response format error.'')
   \<and> fst (parse_verdict ''Sure! CONFIDENCE: High'') = ''None''"
proof -
  have a: "\<not> sublist ''example'' (py_lower ''AbCdEf1234567890XyZ'')"
    and b: "\<not> sublist ''test'' (py_lower ''AbCdEf1234567890XyZ'')"
    and c: "\<not> prefix ''YOUR_'' ''AbCdEf1234567890XyZ''"
    and d: "\<not> suffix ''_HERE'' ''AbCdEf1234567890XyZ''"
    by code_simp+
  have e: "\<not> sublist ''CONFIDENCE:'' [] \<or> \<not> sublist ''REASONING:'' []"
    by simp
  have f: "\<not> prefix ''CONFIDENCE:'' (py_split CHR ''\<newline>'' (py_strip ''Sure! CONFIDENCE: High'') ! 0)"
    by code_simp
  from missing_marker_format_error [OF a b c d _ e,
      of "\<lambda>h p. Text []" "\<lparr>ai_calls = [], bq_inserts = [], clock_reads = 0, logged = []\<rparr>"
         "''password: AbCdEf1234567890XyZ''" "''Sure! CONFIDENCE: High''"] f
  show ?thesis by simp
qed

section \<open>The round trip of the two-line format\<close>

lemma py_rstrip_snoc_nonspace: "\<not> py_isspace c \<Longrightarrow> py_rstrip (s @ [c]) = s @ [c]"
  by (simp add: py_rstrip_def)

lemma py_rstrip_after_nonspace:
  "\<not> py_isspace c \<Longrightarrow> py_rstrip (s @ c # z) = s @ c # py_rstrip z"
  using py_rstrip_append [of "s @ [c]" z]
  by (simp add: py_rstrip_snoc_nonspace py_rstrip_all_space)

lemma py_lstrip_Cons_nonspace: "\<not> py_isspace c \<Longrightarrow> py_lstrip (c # s) = c # s"
  by (simp add: py_lstrip_def)

lemma nonspace_chars: "\<not> py_isspace CHR ''C''" "\<not> py_isspace CHR '':''" "py_isspace CHR '' ''"
  by code_simp+

lemma round_trip_general:
  assumes x: "CHR ''\<newline>'' \<notin> set x" and sx: "py_strip (CHR '' '' # x) = x"
    and y: "CHR ''\<newline>'' \<notin> set y"
  shows "parse_verdict (''CONFIDENCE: '' @ x @ ''\<newline>'' @ ''REASONING: '' @ y) = (x, py_strip y)"
proof -
  define r where "r = py_rstrip (CHR '' '' # y)"
  have nr: "CHR ''\<newline>'' \<notin> set r"
    using set_py_rstrip [of "CHR '' '' # y"] y unfolding r_def by auto
  have "py_strip (''CONFIDENCE: '' @ x @ ''\<newline>'' @ ''REASONING: '' @ y)
          = py_rstrip ((''CONFIDENCE: '' @ x @ ''\<newline>REASONING'') @ CHR '':'' # (CHR '' '' # y))"
    by (simp add: py_strip_def py_lstrip_Cons_nonspace nonspace_chars)
  also have "\<dots> = (''CONFIDENCE: '' @ x @ ''\<newline>REASONING'') @ CHR '':'' # r"
    unfolding r_def by (rule py_rstrip_after_nonspace) (rule nonspace_chars)
  also have "\<dots> = (''CONFIDENCE: '' @ x) @ CHR ''\<newline>'' # (''REASONING:'' @ r)"
    by simp
  finally have s: "py_strip (''CONFIDENCE: '' @ x @ ''\<newline>'' @ ''REASONING: '' @ y)
          = (''CONFIDENCE: '' @ x) @ CHR ''\<newline>'' # (''REASONING:'' @ r)" .
  define l0 where "l0 = ''CONFIDENCE: '' @ x"
  define l1 where "l1 = ''REASONING:'' @ r"
  have l: "py_split CHR ''\<newline>'' (py_strip (''CONFIDENCE: '' @ x @ ''\<newline>'' @ ''REASONING: '' @ y))
          = [l0, l1]"
    unfolding s l0_def l1_def using x nr by (subst py_split_append) (auto simp: py_split_no_sep)
  have p0: "py_startswith l0 ''CONFIDENCE:''" and p1: "py_startswith l1 ''REASONING:''"
    by (simp_all add: l0_def l1_def py_startswith_def)
  have c0: "py_index (py_split1 CHR '':'' l0) (Suc 0) = Some (CHR '' '' # x)"
    unfolding l0_def by (subst py_index_split1) simp_all
  have c1: "py_index (py_split1 CHR '':'' l1) (Suc 0) = Some r"
    unfolding l1_def by (subst py_index_split1) simp_all
  have sr: "py_strip r = py_strip y"
    unfolding r_def by (simp add: py_strip_rstrip py_strip_space_Cons nonspace_chars)
  show ?thesis
    unfolding parse_verdict_def parse_try_def Let_def l
    by (simp add: p0 p1 c0 c1 sx sr)
qed

lemma confidence_tokens:
  assumes "x \<in> set [''High'', ''Medium'', ''Low'', ''None'']"
  shows "CHR ''\<newline>'' \<notin> set x \<and> py_strip (CHR '' '' # x) = x"
proof -
  have "py_strip '' High'' = ''High''" "py_strip '' Medium'' = ''Medium''"
       "py_strip '' Low'' = ''Low''" "py_strip '' None'' = ''None''"
    by code_simp+
  with assms show ?thesis by auto
qed

text \<open>
  Claim C4. For a confidence token \<open>x\<close> among High, Medium, Low and None and a reasoning
  \<open>y\<close> without a line break, the parser reads the text \<open>CONFIDENCE: x\<close>, line break,
  \<open>REASONING: y\<close> back as the pair of \<open>x\<close> and the stripped \<open>y\<close>. The text holds both
  markers, so line 119 of \<open>analyze_with_ai\<close> lets it through.
\<close>

theorem two_line_round_trip:
  assumes "x \<in> set [''High'', ''Medium'', ''Low'', ''None'']" and "CHR ''\<newline>'' \<notin> set y"
  shows "parse_verdict (''CONFIDENCE: '' @ x @ ''\<newline>'' @ ''REASONING: '' @ y) = (x, py_strip y)
         \<and> py_in ''CONFIDENCE:'' (''CONFIDENCE: '' @ x @ ''\<newline>'' @ ''REASONING: '' @ y)
         \<and> py_in ''REASONING:'' (''CONFIDENCE: '' @ x @ ''\<newline>'' @ ''REASONING: '' @ y)"
proof -
  have a: "py_in ''CONFIDENCE:'' (''CONFIDENCE: '' @ x @ ''\<newline>'' @ ''REASONING: '' @ y)"
    unfolding py_in_sublist
    using sublist_appendI [of "''CONFIDENCE:''" "[]" "'' '' @ x @ ''\<newline>'' @ ''REASONING: '' @ y"]
    by simp
  have b: "py_in ''REASONING:'' (''CONFIDENCE: '' @ x @ ''\<newline>'' @ ''REASONING: '' @ y)"
    unfolding py_in_sublist
    using sublist_appendI [of "''REASONING:''" "''CONFIDENCE: '' @ x @ ''\<newline>''" "'' '' @ y"]
    by simp
  from confidence_tokens [OF assms(1)]
  have "CHR ''\<newline>'' \<notin> set x" and "py_strip (CHR '' '' # x) = x" by blast+
  then have "parse_verdict (''CONFIDENCE: '' @ x @ ''\<newline>'' @ ''REASONING: '' @ y) = (x, py_strip y)"
    using assms(2) by (rule round_trip_general)
  with a b show ?thesis by blast
qed

theorem two_line_round_trip_witness:
  "parse_verdict (''CONFIDENCE: '' @ ''Medium'' @ ''\<newline>'' @ ''REASONING: '' @ ''Looks like a live password.  '')
     = (''Medium'', ''Looks like a live password.'')"
proof -
  have x: "''Medium'' \<in> set [''High'', ''Medium'', ''Low'', ''None'']" by simp
  have y: "CHR ''\<newline>'' \<notin> set ''Looks like a live password.  ''" by simp
  have s: "py_strip ''Looks like a live password.  '' = ''Looks like a live password.''" by code_simp
  from two_line_round_trip [OF x y] s show ?thesis by simp
qed

section \<open>The confidence gate\<close>

lemma py_lower_char_letter:
  assumes "97 \<le> (of_char l :: nat)" "(of_char l :: nat) \<le> 122"
  shows "py_lower_char c = l \<longleftrightarrow> c = l \<or> c = capital_of l"
proof -
  define n where "n = (of_char c :: nat)"
  define m where "m = (of_char l :: nat)"
  have a: "(of_char (py_lower_char c) :: nat)
             = (if (65 \<le> n \<and> n \<le> 90) \<or> (192 \<le> n \<and> n \<le> 214) \<or> (216 \<le> n \<and> n \<le> 222)
                then n + 32 else n)"
    by (auto simp: py_lower_char_def Let_def n_def)
  have b: "(of_char (capital_of l) :: nat) = m - 32"
    using assms by (simp add: capital_of_def m_def)
  have "py_lower_char c = l \<longleftrightarrow> (of_char (py_lower_char c) :: nat) = m"
    unfolding m_def by (simp only: of_char_eq_iff)
  also have "\<dots> \<longleftrightarrow> n = m \<or> n = m - 32"
    unfolding a using assms unfolding m_def [symmetric] by auto
  also have "\<dots> \<longleftrightarrow> (of_char c :: nat) = of_char l \<or> (of_char c :: nat) = of_char (capital_of l)"
    unfolding b n_def m_def ..
  also have "\<dots> \<longleftrightarrow> c = l \<or> c = capital_of l"
    by (simp only: of_char_eq_iff)
  finally show ?thesis .
qed

lemma py_lower_eq_word:
  assumes "\<forall>l\<in>set word. 97 \<le> (of_char l :: nat) \<and> (of_char l :: nat) \<le> 122"
  shows "py_lower s = word \<longleftrightarrow> equals_ignoring_case s word"
  using assms
proof (induction s arbitrary: word)
  case Nil
  then show ?case by (auto simp: py_lower_def equals_ignoring_case_def)
next
  case (Cons c s)
  show ?case
  proof (cases word)
    case Nil
    then show ?thesis by (simp add: py_lower_def equals_ignoring_case_def)
  next
    case (Cons l ls)
    with Cons.prems have l: "97 \<le> (of_char l :: nat)" "(of_char l :: nat) \<le> 122"
      and ls: "\<forall>l\<in>set ls. 97 \<le> (of_char l :: nat) \<and> (of_char l :: nat) \<le> 122"
      by simp_all
    from Cons.IH [OF ls] py_lower_char_letter [OF l, of c] show ?thesis
      unfolding Cons by (simp add: py_lower_def equals_ignoring_case_def)
  qed
qed

lemma confidence_gate_iff:
  "confidence_gate c \<longleftrightarrow> equals_ignoring_case c ''high'' \<or> equals_ignoring_case c ''medium''"
proof -
  have "py_lower c = ''high'' \<longleftrightarrow> equals_ignoring_case c ''high''"
    by (rule py_lower_eq_word) simp
  moreover have "py_lower c = ''medium'' \<longleftrightarrow> equals_ignoring_case c ''medium''"
    by (rule py_lower_eq_word) simp
  ultimately show ?thesis by (simp add: confidence_gate_def)
qed

section \<open>The loop body\<close>

lemma logging_fields [simp]:
  "ai_calls (logging_debug m w) = ai_calls w" "ai_calls (logging_info m w) = ai_calls w"
  "ai_calls (logging_warning m w) = ai_calls w" "ai_calls (logging_error m w) = ai_calls w"
  "bq_inserts (logging_debug m w) = bq_inserts w" "bq_inserts (logging_info m w) = bq_inserts w"
  "bq_inserts (logging_warning m w) = bq_inserts w" "bq_inserts (logging_error m w) = bq_inserts w"
  "clock_reads (logging_debug m w) = clock_reads w" "clock_reads (logging_info m w) = clock_reads w"
  "clock_reads (logging_warning m w) = clock_reads w" "clock_reads (logging_error m w) = clock_reads w"
  by (simp_all add: logging_debug_def logging_info_def logging_warning_def logging_error_def)

lemma analyze_with_ai_keeps:
  "bq_inserts (snd (analyze_with_ai g w c v)) = bq_inserts w"
  "clock_reads (snd (analyze_with_ai g w c v)) = clock_reads w"
  by (auto simp: analyze_with_ai_def Let_def split: option.splits gen_result.splits)

lemma row_analysis_keeps:
  "bq_inserts (snd (row_analysis g w n r)) = bq_inserts w"
  "clock_reads (snd (row_analysis g w n r)) = clock_reads w"
  by (simp_all add: row_analysis_def Let_def analyze_with_ai_keeps case_prod_beta)

lemma loop_body_skip:
  "not_valid_str (getattr (row_potential_secret r) PyNone) \<Longrightarrow>
   loop_body g clk st r
     = st\<lparr>processed_count := processed_count st + 1,
          env := logging_debug (''Row '' @ str_nat (processed_count st + 1)
                  @ '': No valid potential_secret found for '' @ row_location r @ ''. Skipping.'')
                  (env st)\<rparr>"
  by (simp add: loop_body_def Let_def)

lemma loop_body_rows:
  assumes "\<not> not_valid_str (getattr (row_potential_secret r) PyNone)"
  shows "rows_to_insert (loop_body g clk st r)
     = (let ra = row_analysis g (env st) (processed_count st + 1) r
        in if confidence_gate (fst (parse_verdict (fst ra)))
           then rows_to_insert st @ [accepted_row clk r (fst ra) (snd ra)]
           else rows_to_insert st)"
  using assms
  by (simp add: loop_body_def Let_def parse_try_completes accepted_row_def case_prod_beta)

lemma loop_body_count:
  assumes "\<not> not_valid_str (getattr (row_potential_secret r) PyNone)"
  shows "count (loop_body g clk st r)
     = (if confidence_gate (fst (parse_verdict (fst (row_analysis g (env st) (processed_count st + 1) r))))
        then count st + 1 else count st)"
  using assms
  by (simp add: loop_body_def Let_def parse_try_completes case_prod_beta)

lemma loop_body_processed:
  "processed_count (loop_body g clk st r) = processed_count st + 1"
  by (simp add: loop_body_def Let_def parse_try_completes case_prod_beta)

lemma loop_body_bq:
  "bq_inserts (env (loop_body g clk st r)) = bq_inserts (env st)"
  by (simp add: loop_body_def Let_def parse_try_completes case_prod_beta row_analysis_keeps)

lemma for_rows_processed:
  "processed_count (for_rows g clk st rows) = processed_count st + length rows"
  by (induction rows arbitrary: st) (simp_all add: loop_body_processed)

lemma for_rows_bq:
  "bq_inserts (env (for_rows g clk st rows)) = bq_inserts (env st)"
  by (induction rows arbitrary: st) (simp_all add: loop_body_bq)

text \<open>
  Claim C5. The gate of line 199 holds exactly when the confidence equals \<open>high\<close> or
  \<open>medium\<close> up to the case of its letters. For a row that passes line 169, the loop body
  appends one finding, built from the row and the verdict, exactly when the confidence
  parsed from the row's analysis text equals \<open>high\<close> or \<open>medium\<close> up to case, and leaves
  the list as it was otherwise: the decision is a function of the confidence string alone.
\<close>

theorem gate_decides_finding:
  "(confidence_gate c \<longleftrightarrow> equals_ignoring_case c ''high'' \<or> equals_ignoring_case c ''medium'')
   \<and> (\<not> not_valid_str (getattr (row_potential_secret r) PyNone) \<longrightarrow>
        rows_to_insert (loop_body g clk st r)
          = (let ra = row_analysis g (env st) (processed_count st + 1) r;
                 confidence = fst (parse_verdict (fst ra))
             in if equals_ignoring_case confidence ''high'' \<or> equals_ignoring_case confidence ''medium''
                then rows_to_insert st @ [accepted_row clk r (fst ra) (snd ra)]
                else rows_to_insert st))"
  by (simp add: loop_body_rows confidence_gate_iff Let_def)

theorem gate_decides_finding_witness:
  "confidence_gate ''MeDiUm''
   \<and> map ai_confidence (rows_to_insert (loop_body
        (\<lambda>h p. Text ''CONFIDENCE: High\<newline>REASONING: Looks like a live password.'')
        (\<lambda>n. ''2024-05-01T10:00:00.000000'')
        \<lparr>count = 0, processed_count = 0, rows_to_insert = [],
         env = \<lparr>ai_calls = [], bq_inserts = [], clock_reads = 0, logged = []\<rparr>\<rparr>
        \<lparr>row_potential_secret = Some (PyStr ''AbCdEf1234567890XyZ''),
         row_repo_name = Some (PyStr ''r1''), row_path = Some (PyStr ''cfg.yaml''),
         row_content = Some (PyStr ''password: AbCdEf1234567890XyZ'')\<rparr>)) = [''High'']
   \<and> map secret_snippet (rows_to_insert (loop_body
        (\<lambda>h p. Text ''CONFIDENCE: High\<newline>REASONING: Looks like a live password.'')
        (\<lambda>n. ''2024-05-01T10:00:00.000000'')
        \<lparr>count = 0, processed_count = 0, rows_to_insert = [],
         env = \<lparr>ai_calls = [], bq_inserts = [], clock_reads = 0, logged = []\<rparr>\<rparr>
        \<lparr>row_potential_secret = Some (PyStr ''AbCdEf1234567890XyZ''),
         row_repo_name = Some (PyStr ''r1''), row_path = Some (PyStr ''cfg.yaml''),
         row_content = Some (PyStr ''password: AbCdEf1234567890XyZ'')\<rparr>)) = [''AbCdEf1234567890XyZ'']"
proof -
  define g :: "string list \<Rightarrow> string \<Rightarrow> gen_result"
    where "g = (\<lambda>h p. Text ''CONFIDENCE: High\<newline>REASONING: Looks like a live password.'')"
  define st where "st = \<lparr>count = 0, processed_count = 0, rows_to_insert = [],
         env = \<lparr>ai_calls = [], bq_inserts = [], clock_reads = 0, logged = []\<rparr>\<rparr>"
  define r where "r = \<lparr>row_potential_secret = Some (PyStr ''AbCdEf1234567890XyZ''),
         row_repo_name = Some (PyStr ''r1''), row_path = Some (PyStr ''cfg.yaml''),
         row_content = Some (PyStr ''password: AbCdEf1234567890XyZ'')\<rparr>"
  have v: "\<not> not_valid_str (getattr (row_potential_secret r) PyNone)"
    by (simp add: r_def not_valid_str_def getattr_def)
  have ra: "fst (row_analysis g (env st) (processed_count st + 1) r)
              = ''CONFIDENCE: High\<newline>REASONING: Looks like a live password.''"
    unfolding g_def st_def r_def by code_simp
  have pv: "parse_verdict ''CONFIDENCE: High\<newline>REASONING: Looks like a live password.''
              = (''High'', ''Looks like a live password.'')"
    by code_simp
  have e: "equals_ignoring_case ''High'' ''high''" "equals_ignoring_case ''MeDiUm'' ''medium''"
    by code_simp+
  have s: "the_str (getattr (row_potential_secret r) PyNone) = ''AbCdEf1234567890XyZ''"
    by (simp add: r_def getattr_def)
  from gate_decides_finding [of "''MeDiUm''" r g "\<lambda>n. ''2024-05-01T10:00:00.000000''" st] v e ra pv
  have "confidence_gate ''MeDiUm''"
    and "rows_to_insert (loop_body g (\<lambda>n. ''2024-05-01T10:00:00.000000'') st r)
          = rows_to_insert st @ [accepted_row (\<lambda>n. ''2024-05-01T10:00:00.000000'') r
               ''CONFIDENCE: High\<newline>REASONING: Looks like a live password.''
               (snd (row_analysis g (env st) (processed_count st + 1) r))]"
    by (simp_all add: Let_def)
  then show ?thesis
    unfolding g_def [symmetric] st_def [symmetric] r_def [symmetric]
    by (simp add: accepted_row_def pv s) (simp add: st_def)
qed

section \<open>The result of a run\<close>

lemma parse_placeholder_text:
  "parse_verdict ''CONFIDENCE: None\<newline>REASONING: Likely placeholder or example value.''
     = (''None'', ''Likely placeholder or example value.'')"
  by code_simp

lemma gate_rejects_None_Low: "\<not> confidence_gate ''None''" "\<not> confidence_gate ''Low''"
  by code_simp+

lemma analysis_text_cases:
  "fst (analyze_with_ai g w c v) \<in>
     {''CONFIDENCE: None\<newline>REASONING: Likely placeholder or example value.'',
      ''CONFIDENCE: Low\<newline>REASONING: AI response format error.'',
      ''CONFIDENCE: None\<newline>REASONING: Vertex AI quota exceeded during analysis.'',
      ''CONFIDENCE: None\<newline>REASONING: Error during AI analysis communication.''}
   \<or> (\<exists>h p. g h p = Text (fst (analyze_with_ai g w c v)))"
  unfolding analyze_with_ai_def Let_def
  by (auto split: option.splits gen_result.splits)

lemma analysis_rejected:
  assumes "\<forall>h p t. g h p = Text t \<longrightarrow> \<not> confidence_gate (fst (parse_verdict t))"
  shows "\<not> confidence_gate (fst (parse_verdict (fst (analyze_with_ai g w c v))))"
  using analysis_text_cases [of g w c v] assms
  by (auto simp: parse_placeholder_text parse_format_error_text parse_quota_text
      parse_communication_text gate_rejects_None_Low)

lemma row_analysis_rejected:
  assumes "\<forall>h p t. g h p = Text t \<longrightarrow> \<not> confidence_gate (fst (parse_verdict t))"
  shows "\<not> confidence_gate (fst (parse_verdict (fst (row_analysis g w n r))))"
  using analysis_rejected [OF assms]
  by (simp add: row_analysis_def Let_def case_prod_beta)

lemma loop_body_rejected:
  assumes "\<forall>h p t. g h p = Text t \<longrightarrow> \<not> confidence_gate (fst (parse_verdict t))"
  shows "rows_to_insert (loop_body g clk st r) = rows_to_insert st"
proof (cases "not_valid_str (getattr (row_potential_secret r) PyNone)")
  case True
  then show ?thesis by (simp add: loop_body_skip)
next
  case False
  then show ?thesis using row_analysis_rejected [OF assms]
    by (simp add: loop_body_rows Let_def)
qed

lemma for_rows_rejected:
  assumes "\<forall>h p t. g h p = Text t \<longrightarrow> \<not> confidence_gate (fst (parse_verdict t))"
  shows "rows_to_insert (for_rows g clk st rows) = rows_to_insert st"
  by (induction rows arbitrary: st) (simp_all add: loop_body_rejected [OF assms])

lemma log_to_bigquery_empty: "bq_inserts (log_to_bigquery sink w []) = bq_inserts w"
  by (simp add: log_to_bigquery_def)

lemma hunt_result:
  "hunt_and_analyze g sink clk (QueryRows total_rows rows None) w
     = (let st = for_rows g clk \<lparr>count = 0, processed_count = 0, rows_to_insert = [],
                   env = logging_info (''BigQuery hunt query complete. Found '' @ py_str total_rows
                           @ '' potential candidates.'')
                         (logging_info ''Starting BigQuery hunt query...''
                           (logging_info ''Cloud Function execution started.'' w))\<rparr> rows;
            final_message = ''Scan complete. Processed '' @ str_nat (length rows)
              @ '' candidates. Found and logged '' @ str_nat (length (rows_to_insert st))
              @ '' high/medium-confidence leaks.''
        in ((final_message, 200),
            logging_info final_message (log_to_bigquery sink (env st) (rows_to_insert st))))"
  by (simp add: hunt_and_analyze_def Let_def for_rows_processed)

lemma hunt_independent_of_sink:
  "fst (hunt_and_analyze g sink clk q w) = fst (hunt_and_analyze g sink' clk q w)"
proof (cases q)
  case (QueryRaises e)
  then show ?thesis by (simp add: hunt_and_analyze_def)
next
  case (QueryRows total_rows rows it)
  then show ?thesis
    by (cases it) (simp_all add: hunt_and_analyze_def Let_def)
qed

lemma str_nat_values: "str_nat 10 = ''10''" "str_nat 0 = ''0''"
  by code_simp+

text \<open>
  Claim C8. The pair of summary and status that the entry point returns is the same for
  any two behaviours of \<open>insert_rows_json\<close>, failures included. When the iteration
  completes, it is the summary naming the number of rows and a number of findings, with
  status 200. When the model never answers with a confidence that passes the gate, every
  candidate is rejected: for ten rows the summary reads 10 processed and 0 found, the
  status is 200, and no batch is handed to BigQuery.
\<close>

theorem result_independent_of_persistence:
  "fst (hunt_and_analyze g sink clk q w) = fst (hunt_and_analyze g sink' clk q w)
   \<and> (\<exists>n. fst (hunt_and_analyze g sink clk (QueryRows total_rows rows None) w)
          = (''Scan complete. Processed '' @ str_nat (length rows)
              @ '' candidates. Found and logged '' @ str_nat n
              @ '' high/medium-confidence leaks.'', 200))
   \<and> ((\<forall>h p t. g h p = Text t \<longrightarrow> \<not> confidence_gate (fst (parse_verdict t)))
        \<and> length rows = 10 \<longrightarrow>
        fst (hunt_and_analyze g sink clk (QueryRows total_rows rows None) w)
          = (''Scan complete. Processed 10 candidates. Found and logged 0 high/medium-confidence leaks.'', 200)
        \<and> bq_inserts (snd (hunt_and_analyze g sink clk (QueryRows total_rows rows None) w)) = bq_inserts w)"
proof (intro conjI impI)
  show "fst (hunt_and_analyze g sink clk q w) = fst (hunt_and_analyze g sink' clk q w)"
    by (rule hunt_independent_of_sink)
  show "\<exists>n. fst (hunt_and_analyze g sink clk (QueryRows total_rows rows None) w)
          = (''Scan complete. Processed '' @ str_nat (length rows)
              @ '' candidates. Found and logged '' @ str_nat n
              @ '' high/medium-confidence leaks.'', 200)"
    unfolding hunt_result Let_def by (intro exI) simp
next
  assume h: "(\<forall>h p t. g h p = Text t \<longrightarrow> \<not> confidence_gate (fst (parse_verdict t))) \<and> length rows = 10"
  then have r: "\<forall>h p t. g h p = Text t \<longrightarrow> \<not> confidence_gate (fst (parse_verdict t))"
    and l: "length rows = 10" by blast+
  show "fst (hunt_and_analyze g sink clk (QueryRows total_rows rows None) w)
          = (''Scan complete. Processed 10 candidates. Found and logged 0 high/medium-confidence leaks.'', 200)"
    unfolding hunt_result Let_def
    by (simp add: for_rows_rejected [OF r] l str_nat_values)
  show "bq_inserts (snd (hunt_and_analyze g sink clk (QueryRows total_rows rows None) w)) = bq_inserts w"
    unfolding hunt_result Let_def
    by (simp add: for_rows_rejected [OF r] log_to_bigquery_empty for_rows_bq)
qed

theorem result_independent_of_persistence_witness:
  "fst (hunt_and_analyze (\<lambda>h p. Text ''CONFIDENCE: Low\<newline>REASONING: Looks like a sample value.'')
          (\<lambda>rows. InsertRaises ''503 backend error'') (\<lambda>n. ''2024-05-01T10:00:00.000000'')
          (QueryRows (PyInt 10)
             (replicate 10 \<lparr>row_potential_secret = Some (PyStr ''AbCdEf1234567890XyZ''),
                row_repo_name = Some (PyStr ''r1''), row_path = Some (PyStr ''cfg.yaml''),
                row_content = Some (PyStr ''password: AbCdEf1234567890XyZ'')\<rparr>) None)
          \<lparr>ai_calls = [], bq_inserts = [], clock_reads = 0, logged = []\<rparr>)
     = (''Scan complete. Processed 10 candidates. Found and logged 0 high/medium-confidence leaks.'', 200)
   \<and> bq_inserts (snd (hunt_and_analyze (\<lambda>h p. Text ''CONFIDENCE: Low\<newline>REASONING: Looks like a sample value.'')
          (\<lambda>rows. InsertRaises ''503 backend error'') (\<lambda>n. ''2024-05-01T10:00:00.000000'')
          (QueryRows (PyInt 10)
             (replicate 10 \<lparr>row_potential_secret = Some (PyStr ''AbCdEf1234567890XyZ''),
                row_repo_name = Some (PyStr ''r1''), row_path = Some (PyStr ''cfg.yaml''),
                row_content = Some (PyStr ''password: AbCdEf1234567890XyZ'')\<rparr>) None)
          \<lparr>ai_calls = [], bq_inserts = [], clock_reads = 0, logged = []\<rparr>)) = []"
proof -
  define g :: "string list \<Rightarrow> string \<Rightarrow> gen_result"
    where "g = (\<lambda>h p. Text ''CONFIDENCE: Low\<newline>REASONING: Looks like a sample value.'')"
  have pv: "parse_verdict ''CONFIDENCE: Low\<newline>REASONING: Looks like a sample value.''
              = (''Low'', ''Looks like a sample value.'')"
    by code_simp
  have h: "\<forall>h p t. g h p = Text t \<longrightarrow> \<not> confidence_gate (fst (parse_verdict t))"
    using pv gate_rejects_None_Low by (auto simp: g_def)
  have l: "length (replicate 10 \<lparr>row_potential_secret = Some (PyStr ''AbCdEf1234567890XyZ''),
                row_repo_name = Some (PyStr ''r1''), row_path = Some (PyStr ''cfg.yaml''),
                row_content = Some (PyStr ''password: AbCdEf1234567890XyZ'')\<rparr>) = 10"
    by simp
  from result_independent_of_persistence [where g = g
      and sink = "\<lambda>rows. InsertRaises ''503 backend error''"
      and clk = "\<lambda>n. ''2024-05-01T10:00:00.000000''" and total_rows = "PyInt 10"
      and rows = "replicate 10 \<lparr>row_potential_secret = Some (PyStr ''AbCdEf1234567890XyZ''),
                row_repo_name = Some (PyStr ''r1''), row_path = Some (PyStr ''cfg.yaml''),
                row_content = Some (PyStr ''password: AbCdEf1234567890XyZ'')\<rparr>"
      and w = "\<lparr>ai_calls = [], bq_inserts = [], clock_reads = 0, logged = []\<rparr>"] h l
  show ?thesis
    unfolding g_def by simp
qed

section \<open>Rows without a valid secret\<close>

lemma analyze_with_ai_sim:
  assumes "ai_calls w = ai_calls w'"
  shows "fst (analyze_with_ai g w c v) = fst (analyze_with_ai g w' c v)
         \<and> ai_calls (snd (analyze_with_ai g w c v)) = ai_calls (snd (analyze_with_ai g w' c v))"
  using assms unfolding analyze_with_ai_def Let_def
  by (auto split: option.splits gen_result.splits)

lemma row_analysis_sim:
  assumes "ai_calls w = ai_calls w'"
  shows "fst (row_analysis g w n r) = fst (row_analysis g w' n' r)
         \<and> ai_calls (snd (row_analysis g w n r)) = ai_calls (snd (row_analysis g w' n' r))"
proof -
  have "ai_calls (logging_info a (if b then logging_warning m w else w))
          = ai_calls (logging_info a' (if b then logging_warning m' w' else w'))" for a a' b m m'
    using assms by simp
  from analyze_with_ai_sim [OF this] show ?thesis
    by (simp add: row_analysis_def Let_def case_prod_beta if_distrib [of snd] if_distrib [of fst]
        if_distrib [of "logging_info _"] cong: if_cong)
qed


lemma loop_body_calls:
  assumes "\<not> not_valid_str (getattr (row_potential_secret r) PyNone)"
  shows "ai_calls (env (loop_body g clk st r))
           = ai_calls (snd (row_analysis g (env st) (processed_count st + 1) r))"
  using assms
  by (simp add: loop_body_def Let_def parse_try_completes case_prod_beta)

lemma loop_body_clock:
  assumes "\<not> not_valid_str (getattr (row_potential_secret r) PyNone)"
  shows "clock_reads (env (loop_body g clk st r))
     = (if confidence_gate (fst (parse_verdict (fst (row_analysis g (env st) (processed_count st + 1) r))))
        then clock_reads (env st) + 1 else clock_reads (env st))"
  using assms
  by (simp add: loop_body_def Let_def parse_try_completes case_prod_beta row_analysis_keeps)

lemma loop_body_sim:
  assumes "count st = count st'" "rows_to_insert st = rows_to_insert st'"
    "ai_calls (env st) = ai_calls (env st')" "clock_reads (env st) = clock_reads (env st')"
  shows "count (loop_body g clk st r) = count (loop_body g clk st' r)
       \<and> rows_to_insert (loop_body g clk st r) = rows_to_insert (loop_body g clk st' r)
       \<and> ai_calls (env (loop_body g clk st r)) = ai_calls (env (loop_body g clk st' r))
       \<and> clock_reads (env (loop_body g clk st r)) = clock_reads (env (loop_body g clk st' r))"
proof (cases "not_valid_str (getattr (row_potential_secret r) PyNone)")
  case True
  then show ?thesis using assms by (simp add: loop_body_skip)
next
  case False
  from row_analysis_sim [OF assms(3), of g "processed_count st + 1" r "processed_count st' + 1"]
  have a: "fst (row_analysis g (env st) (processed_count st + 1) r)
             = fst (row_analysis g (env st') (processed_count st' + 1) r)"
    and b: "ai_calls (snd (row_analysis g (env st) (processed_count st + 1) r))
             = ai_calls (snd (row_analysis g (env st') (processed_count st' + 1) r))"
    by blast+
  show ?thesis
    using False assms(1,2,4) a b
    by (simp add: loop_body_count loop_body_rows loop_body_calls loop_body_clock Let_def
        accepted_row_def row_analysis_keeps)
qed

lemma for_rows_sim:
  assumes "count st = count st'" "rows_to_insert st = rows_to_insert st'"
    "ai_calls (env st) = ai_calls (env st')" "clock_reads (env st) = clock_reads (env st')"
  shows "count (for_rows g clk st rows) = count (for_rows g clk st' rows)
       \<and> rows_to_insert (for_rows g clk st rows) = rows_to_insert (for_rows g clk st' rows)
       \<and> ai_calls (env (for_rows g clk st rows)) = ai_calls (env (for_rows g clk st' rows))"
  using assms
proof (induction rows arbitrary: st st')
  case Nil
  then show ?case by simp
next
  case (Cons r rows)
  from loop_body_sim [OF Cons.prems, of g clk r]
  have "count (loop_body g clk st r) = count (loop_body g clk st' r)"
    "rows_to_insert (loop_body g clk st r) = rows_to_insert (loop_body g clk st' r)"
    "ai_calls (env (loop_body g clk st r)) = ai_calls (env (loop_body g clk st' r))"
    "clock_reads (env (loop_body g clk st r)) = clock_reads (env (loop_body g clk st' r))"
    by blast+
  from Cons.IH [OF this] show ?case by simp
qed

lemma for_rows_append:
  "for_rows g clk st (xs @ ys) = for_rows g clk (for_rows g clk st xs) ys"
  by (induction xs arbitrary: st) simp_all

lemma missing_secret_not_valid:
  assumes "row_potential_secret r = None \<or> row_potential_secret r = Some PyNone
           \<or> (\<exists>i. row_potential_secret r = Some (PyInt i))"
  shows "not_valid_str (getattr (row_potential_secret r) PyNone)"
  using assms by (auto simp: not_valid_str_def getattr_def)

text \<open>
  Claim C10. Every row of the iteration adds one to \<open>processed_count\<close>. A row whose
  \<open>potential_secret\<close> is missing, is \<open>None\<close> or is an int only changes \<open>processed_count\<close>
  and adds a debug record to the log: no prompt is sent, no finding is added. The rows
  before and after it are processed as if it were not there: the findings and the
  prompts of the run are those of the run without the row, and the summary counts it
  among the processed rows.
\<close>

theorem invalid_rows_counted_and_skipped:
  assumes "row_potential_secret r = None \<or> row_potential_secret r = Some PyNone
           \<or> (\<exists>i. row_potential_secret r = Some (PyInt i))"
  shows "processed_count (for_rows g clk st (before @ r # after))
           = processed_count st + length (before @ r # after)
       \<and> loop_body g clk st r
           = st\<lparr>processed_count := processed_count st + 1,
                env := logging_debug (''Row '' @ str_nat (processed_count st + 1)
                  @ '': No valid potential_secret found for '' @ row_location r @ ''. Skipping.'')
                  (env st)\<rparr>
       \<and> ai_calls (env (loop_body g clk st r)) = ai_calls (env st)
       \<and> rows_to_insert (for_rows g clk st (before @ r # after))
           = rows_to_insert (for_rows g clk st (before @ after))
       \<and> ai_calls (env (for_rows g clk st (before @ r # after)))
           = ai_calls (env (for_rows g clk st (before @ after)))
       \<and> fst (hunt_and_analyze g sink clk (QueryRows total_rows (before @ r # after) None) w)
           = (''Scan complete. Processed '' @ str_nat (length (before @ r # after))
               @ '' candidates. Found and logged ''
               @ str_nat (length (rows_to_insert (for_rows g clk
                    \<lparr>count = 0, processed_count = 0, rows_to_insert = [],
                     env = logging_info (''BigQuery hunt query complete. Found ''
                             @ py_str total_rows @ '' potential candidates.'')
                           (logging_info ''Starting BigQuery hunt query...''
                             (logging_info ''Cloud Function execution started.'' w))\<rparr>
                    (before @ after))))
               @ '' high/medium-confidence leaks.'', 200)"
proof -
  have nv: "not_valid_str (getattr (row_potential_secret r) PyNone)"
    using assms by (rule missing_secret_not_valid)
  have skip: "loop_body g clk s r
           = s\<lparr>processed_count := processed_count s + 1,
                env := logging_debug (''Row '' @ str_nat (processed_count s + 1)
                  @ '': No valid potential_secret found for '' @ row_location r @ ''. Skipping.'')
                  (env s)\<rparr>" for s
    using nv by (rule loop_body_skip)
  have sim: "rows_to_insert (for_rows g clk s (before @ r # after))
           = rows_to_insert (for_rows g clk s (before @ after))
       \<and> ai_calls (env (for_rows g clk s (before @ r # after)))
           = ai_calls (env (for_rows g clk s (before @ after)))" for s
  proof -
    define s0 where "s0 = for_rows g clk s before"
    have "count (loop_body g clk s0 r) = count s0"
      "rows_to_insert (loop_body g clk s0 r) = rows_to_insert s0"
      "ai_calls (env (loop_body g clk s0 r)) = ai_calls (env s0)"
      "clock_reads (env (loop_body g clk s0 r)) = clock_reads (env s0)"
      by (simp_all add: skip)
    from for_rows_sim [OF this, of g clk after] show ?thesis
      by (simp add: for_rows_append s0_def)
  qed
  show ?thesis
    unfolding hunt_result Let_def
    using sim by (simp add: for_rows_processed skip)
qed

theorem invalid_rows_counted_and_skipped_witness:
  "processed_count (for_rows (\<lambda>h p. Text ''CONFIDENCE: High\<newline>REASONING: real'')
       (\<lambda>n. ''2024-05-01T10:00:00.000000'')
       \<lparr>count = 0, processed_count = 0, rows_to_insert = [],
        env = \<lparr>ai_calls = [], bq_inserts = [], clock_reads = 0, logged = []\<rparr>\<rparr>
       [\<lparr>row_potential_secret = Some (PyInt 42), row_repo_name = Some (PyStr ''r1''),
         row_path = None, row_content = Some (PyStr ''x = 42'')\<rparr>]) = 1
   \<and> rows_to_insert (for_rows (\<lambda>h p. Text ''CONFIDENCE: High\<newline>REASONING: real'')
       (\<lambda>n. ''2024-05-01T10:00:00.000000'')
       \<lparr>count = 0, processed_count = 0, rows_to_insert = [],
        env = \<lparr>ai_calls = [], bq_inserts = [], clock_reads = 0, logged = []\<rparr>\<rparr>
       [\<lparr>row_potential_secret = Some (PyInt 42), row_repo_name = Some (PyStr ''r1''),
         row_path = None, row_content = Some (PyStr ''x = 42'')\<rparr>]) = []
   \<and> ai_calls (env (for_rows (\<lambda>h p. Text ''CONFIDENCE: High\<newline>REASONING: real'')
       (\<lambda>n. ''2024-05-01T10:00:00.000000'')
       \<lparr>count = 0, processed_count = 0, rows_to_insert = [],
        env = \<lparr>ai_calls = [], bq_inserts = [], clock_reads = 0, logged = []\<rparr>\<rparr>
       [\<lparr>row_potential_secret = Some (PyInt 42), row_repo_name = Some (PyStr ''r1''),
         row_path = None, row_content = Some (PyStr ''x = 42'')\<rparr>])) = []"
proof -
  have i: "row_potential_secret \<lparr>row_potential_secret = Some (PyInt 42),
             row_repo_name = Some (PyStr ''r1''), row_path = None,
             row_content = Some (PyStr ''x = 42'')\<rparr> = None
         \<or> row_potential_secret \<lparr>row_potential_secret = Some (PyInt 42),
             row_repo_name = Some (PyStr ''r1''), row_path = None,
             row_content = Some (PyStr ''x = 42'')\<rparr> = Some PyNone
         \<or> (\<exists>i. row_potential_secret \<lparr>row_potential_secret = Some (PyInt 42),
             row_repo_name = Some (PyStr ''r1''), row_path = None,
             row_content = Some (PyStr ''x = 42'')\<rparr> = Some (PyInt i))"
    by simp
  from invalid_rows_counted_and_skipped [OF i,
      of "\<lambda>h p. Text ''CONFIDENCE: High\<newline>REASONING: real''"
         "\<lambda>n. ''2024-05-01T10:00:00.000000''"
         "\<lparr>count = 0, processed_count = 0, rows_to_insert = [],
           env = \<lparr>ai_calls = [], bq_inserts = [], clock_reads = 0, logged = []\<rparr>\<rparr>"
         "[]" "[]"]
  show ?thesis by simp
qed

end
